theory Spec2Isabelle
  imports Complex_Main
begin

section \<open>Data model of NURBSCurve3D\<close>

text \<open>
  The class \<open>base::geometry::NURBSCurve3D\<close> (src/NURBSCurve3D.cpp) wraps a curve of
  the SISL spline library.  The embedding reads C++ \<open>double\<close> as \<open>real\<close>: rounding,
  infinities, NaN and signed zeros are outside the model.  Division by zero, which
  gives an infinity or NaN in C++, is \<open>0\<close> in HOL: this shows in \<open>normalize\<close> of the zero
  vector and in \<open>getUnitParameter\<close> of a curve of length 0.

  \<open>Vector3d\<close> is Eigen's vector of three doubles, \<open>Matrix3d\<close> its 3x3 matrix, kept
  here as three rows.
\<close>

datatype Vector3d = Vector3d (x3: real) (y3: real) (z3: real)

datatype Vector2d = Vector2d (x2: real) (y2: real)

datatype Matrix3d = Matrix3d (row0: Vector3d) (row1: Vector3d) (row2: Vector3d)

text \<open>
  The exceptions the class throws, with their messages: \<open>std::out_of_range\<close>,
  \<open>std::runtime_error\<close> and \<open>std::logic_error\<close>.
\<close>

datatype error =
    out_of_range string
  | runtime_error string
  | logic_error string

text \<open>
  \<open>SISLIntcurve\<close>: of an intersection curve the class reads only the parameter array
  \<open>epar1\<close>, at the indices 0 and 1.  A C array is a function from indices.
\<close>

record SISLIntcurve =
  epar1 :: "nat \<Rightarrow> real"

text \<open>
  The members of the class.  \<open>curve\<close> is the pointer to the SISL curve, \<open>None\<close> for
  the null pointer; the type \<open>'c\<close> of curve objects is opaque.
\<close>

record 'c NURBSCurve3D =
  curve :: "'c option"
  geometric_resolution :: real
  curve_order :: int
  points :: "Vector3d list"
  start_param :: real
  end_param :: real
  has_curve_length :: bool
  curve_length :: real
  has_curvature_max :: bool
  curvature_max :: real

subsection \<open>The SISL routines the class calls\<close>

text \<open>
  SISL is an external library: its routines are parameters of the model, one field for
  each routine, with the arguments in the order of the call.  A routine returns what it
  writes through its output pointers, the status last.  Outputs the class never reads
  (\<open>leftknot\<close> of s1227, \<open>point_param\<close> and \<open>nb_unique_param\<close> of s1356, \<open>p\<close> of
  s2559) are left out.  Where the class hands a routine the address of one of its own
  members (\<open>&curve_length\<close> in s1240, \<open>&end_param\<close> and \<open>&curve\<close> in s1356), the routine
  receives the content of that member on entry as well, so that a routine that does not
  write on failure is an instance: it returns what it received.
\<close>

record 'c sisl =
  s1363 :: "'c option \<Rightarrow> real \<times> real \<times> int"
  s1227 :: "'c option \<Rightarrow> int \<Rightarrow> real \<Rightarrow> (nat \<Rightarrow> real) \<times> int"
  s2550 :: "'c option \<Rightarrow> real \<Rightarrow> int \<Rightarrow> real \<times> int"
  s2556 :: "'c option \<Rightarrow> real \<Rightarrow> int \<Rightarrow> real \<times> int"
  s1240 :: "'c option \<Rightarrow> real \<Rightarrow> real \<Rightarrow> real \<times> int"
  s1356 :: "real list \<Rightarrow> int \<Rightarrow> int \<Rightarrow> int list \<Rightarrow> int \<Rightarrow> int \<Rightarrow> int \<Rightarrow> int \<Rightarrow> real
              \<Rightarrow> real \<Rightarrow> 'c option \<Rightarrow> real \<times> 'c option \<times> int"
  s1953 :: "'c option \<Rightarrow> real list \<Rightarrow> int \<Rightarrow> real \<Rightarrow> real
              \<Rightarrow> int \<times> (nat \<Rightarrow> real) \<times> int \<times> (nat \<Rightarrow> SISLIntcurve) \<times> int"
  s1774 :: "'c option \<Rightarrow> real list \<Rightarrow> int \<Rightarrow> real \<Rightarrow> real \<Rightarrow> real \<Rightarrow> real \<Rightarrow> real \<times> int"
  s2559 :: "'c option \<Rightarrow> real \<Rightarrow> int \<Rightarrow> (nat \<Rightarrow> real) \<times> (nat \<Rightarrow> real) \<times> (nat \<Rightarrow> real) \<times> int"
  s1940 :: "'c option \<Rightarrow> real list \<Rightarrow> int \<Rightarrow> int \<Rightarrow> int \<Rightarrow> int
              \<Rightarrow> 'c option \<times> (nat \<Rightarrow> real) \<times> int"

text \<open>
  \<open>DIM\<close> is a macro of the header, which is not among the sources; the class declares
  \<open>double pos[DIM]\<close> and reads \<open>pos[0]\<close>, \<open>pos[1]\<close>, \<open>pos[2]\<close>, so it is 3.
\<close>

definition DIM :: int where
  "DIM = 3"

text \<open>
  \<open>M_PI\<close> and \<open>M_2_PI\<close> of \<open><math.h>\<close>: the first is pi, the second is 2/pi
  (0.63661977236758134308), not 2*pi.
\<close>

definition M_PI :: real where
  "M_PI = pi"

definition M_2_PI :: real where
  "M_2_PI = 2 / pi"

text \<open>
  \<open>atan2\<close> of the C library, by the quadrant of \<open>(x, y)\<close>.  Without signed zeros,
  \<open>atan2 0 x\<close> for negative \<open>x\<close> is \<open>pi\<close>.
\<close>

definition atan2 :: "real \<Rightarrow> real \<Rightarrow> real" where
  "atan2 y x =
     (if 0 < x then arctan (y / x)
      else if x < 0 then (if 0 \<le> y then arctan (y / x) + pi else arctan (y / x) - pi)
      else if 0 < y then pi / 2
      else if y < 0 then - (pi / 2)
      else 0)"

text \<open>
  Eigen: \<open>norm\<close> and \<open>normalize\<close> (division of the vector by its norm).  For the zero
  vector the quotient is the zero vector here.
\<close>

definition norm2 :: "Vector2d \<Rightarrow> real" where
  "norm2 v = sqrt ((x2 v)\<^sup>2 + (y2 v)\<^sup>2)"

definition norm3 :: "Vector3d \<Rightarrow> real" where
  "norm3 v = sqrt ((x3 v)\<^sup>2 + (y3 v)\<^sup>2 + (z3 v)\<^sup>2)"

definition normalize2 :: "Vector2d \<Rightarrow> Vector2d" where
  "normalize2 v = Vector2d (x2 v / norm2 v) (y2 v / norm2 v)"

definition minus3 :: "Vector3d \<Rightarrow> Vector3d \<Rightarrow> Vector3d" where
  "minus3 a b = Vector3d (x3 a - x3 b) (y3 a - y3 b) (z3 a - z3 b)"

section \<open>The member functions\<close>

subsection \<open>Construction\<close>

text \<open>
  The constructor taking an existing SISL curve: it asks s1363 for the parameter
  interval and throws when the status is not 0.
\<close>

definition NURBSCurve3D_from_curve ::
  "'c sisl \<Rightarrow> real \<Rightarrow> int \<Rightarrow> Vector3d list \<Rightarrow> 'c option \<Rightarrow> error + 'c NURBSCurve3D" where
  "NURBSCurve3D_from_curve L res ord pts c =
     (case s1363 L c of (sp, ep, status) \<Rightarrow>
        if status \<noteq> 0 then Inl (runtime_error ''cannot get the curve start & end parameters'')
        else Inr \<lparr> curve = c, geometric_resolution = res, curve_order = ord, points = pts,
                   start_param = sp, end_param = ep,
                   has_curve_length = False, curve_length = - 1,
                   has_curvature_max = False, curvature_max = - 1 \<rparr>)"

subsection \<open>Evaluation\<close>

definition getPoint :: "'c sisl \<Rightarrow> 'c NURBSCurve3D \<Rightarrow> real \<Rightarrow> error + Vector3d" where
  "getPoint L s param =
     (if param < start_param s \<or> param > end_param s
      then Inl (out_of_range ''_param is not in the [start_param, end_param] range'')
      else case s1227 L (curve s) 0 param of (pos, status) \<Rightarrow>
        if status \<noteq> 0 then Inl (runtime_error ''SISL error while computing a curve point'')
        else Inr (Vector3d (pos 0) (pos 1) (pos 2)))"

definition getCurvature :: "'c sisl \<Rightarrow> 'c NURBSCurve3D \<Rightarrow> real \<Rightarrow> error + real" where
  "getCurvature L s param =
     (if param < start_param s \<or> param > end_param s
      then Inl (out_of_range ''_param is not in the [start_param, end_param] range'')
      else case s2550 L (curve s) param 1 of (curvature, status) \<Rightarrow>
        if status \<noteq> 0 then Inl (runtime_error ''SISL error while computing a curvature'')
        else Inr curvature)"

definition getVariationOfCurvature :: "'c sisl \<Rightarrow> 'c NURBSCurve3D \<Rightarrow> real \<Rightarrow> error + real" where
  "getVariationOfCurvature L s param =
     (if param < start_param s \<or> param > end_param s
      then Inl (out_of_range ''_param is not in the [start_param, end_param] range'')
      else case s2556 L (curve s) param 1 of (VoC, status) \<Rightarrow>
        if status \<noteq> 0
        then Inl (runtime_error ''SISL error while computing a variation of curvature'')
        else Inr VoC)"

subsection \<open>Cached scalars\<close>

text \<open>
  \<open>getCurveLength\<close> changes the object: the result comes with the new state, also when
  it throws (s1240 is handed \<open>&curve_length\<close>).
\<close>

definition getCurveLength ::
  "'c sisl \<Rightarrow> 'c NURBSCurve3D \<Rightarrow> (error + real) \<times> 'c NURBSCurve3D" where
  "getCurveLength L s =
     (if has_curve_length s then (Inr (curve_length s), s)
      else case s1240 L (curve s) (geometric_resolution s) (curve_length s) of
        (len, status) \<Rightarrow>
          let s1 = s\<lparr>curve_length := len\<rparr> in
          if status \<noteq> 0 then (Inl (runtime_error ''cannot get the curve length''), s1)
          else (Inr (curve_length s1), s1\<lparr>has_curve_length := True\<rparr>))"

definition getUnitParameter ::
  "'c sisl \<Rightarrow> 'c NURBSCurve3D \<Rightarrow> (error + real) \<times> 'c NURBSCurve3D" where
  "getUnitParameter L s =
     (case getCurveLength L s of
        (Inl e, s1) \<Rightarrow> (Inl e, s1)
      | (Inr len, s1) \<Rightarrow> (Inr ((end_param s1 - start_param s1) / len), s1))"

text \<open>
  The sampling loop of \<open>getCurvatureMax\<close>, \<open>for (p = start_param; p <= end_param;
  p += delPara)\<close>.  It does not end when \<open>delPara\<close> is not positive and
  \<open>start_param \<le> end_param\<close>: not returning is the value \<open>None\<close>.
\<close>

partial_function (option) curvature_loop ::
  "'c sisl \<Rightarrow> 'c NURBSCurve3D \<Rightarrow> real \<Rightarrow> real \<Rightarrow> ((error + unit) \<times> 'c NURBSCurve3D) option" where
  "curvature_loop L s delPara p =
     (if p \<le> end_param s then
        (case getCurvature L s p of
           Inl e \<Rightarrow> Some (Inl e, s)
         | Inr curvature \<Rightarrow>
             curvature_loop L
               (if curvature > curvature_max s then s\<lparr>curvature_max := curvature\<rparr> else s)
               delPara (p + delPara))
      else Some (Inr (), s))"

definition getCurvatureMax ::
  "'c sisl \<Rightarrow> 'c NURBSCurve3D \<Rightarrow> ((error + real) \<times> 'c NURBSCurve3D) option" where
  "getCurvatureMax L s =
     (if has_curvature_max s then Some (Inr (curvature_max s), s)
      else case getUnitParameter L s of
        (Inl e, s1) \<Rightarrow> Some (Inl e, s1)
      | (Inr u, s1) \<Rightarrow>
          let delPara = u * geometric_resolution s1;
              s2 = s1\<lparr>curvature_max := 0\<rparr> in
          (case curvature_loop L s2 delPara (start_param s2) of
             None \<Rightarrow> None
           | Some (Inl e, s3) \<Rightarrow> Some (Inl e, s3)
           | Some (Inr _, s3) \<Rightarrow>
               Some (Inr (curvature_max s3), s3\<lparr>has_curvature_max := True\<rparr>)))"

subsection \<open>Control points, fitting, clearing, simplifying\<close>

definition addPoint :: "'c NURBSCurve3D \<Rightarrow> Vector3d \<Rightarrow> 'c NURBSCurve3D" where
  "addPoint s pt = s\<lparr>points := points s @ [pt]\<rparr>"

text \<open>
  \<open>getPointCount\<close> is declared in the header, which is not among the sources; it is
  the number of control points.
\<close>

definition getPointCount :: "'c NURBSCurve3D \<Rightarrow> int" where
  "getPointCount s = int (length (points s))"

text \<open>
  \<open>update\<close>: the coordinates of the control points in one array, every point of type 1;
  then \<open>start_param\<close> is set to 0, the old curve is freed and the pointer set to null,
  and only then s1356 is called with the addresses of \<open>end_param\<close> and \<open>curve\<close>.
\<close>

definition update :: "'c sisl \<Rightarrow> 'c NURBSCurve3D \<Rightarrow> (error + unit) \<times> 'c NURBSCurve3D" where
  "update L s =
     (let pts = concat (map (\<lambda>v. [x3 v, y3 v, z3 v]) (points s));
          point_types = map (\<lambda>v. (1::int)) (points s);
          s1 = s\<lparr>start_param := 0\<rparr>;
          s2 = (if curve s1 \<noteq> None then s1\<lparr>curve := None\<rparr> else s1)
      in case s1356 L pts (getPointCount s2) DIM point_types 0 0 1 (curve_order s2)
                (start_param s2) (end_param s2) (curve s2) of
        (ep, c, status) \<Rightarrow>
          let s3 = s2\<lparr>end_param := ep, curve := c\<rparr> in
          if status \<noteq> 0 then (Inl (runtime_error ''cannot generate the curve''), s3)
          else (Inr (), s3))"

definition clear :: "'c NURBSCurve3D \<Rightarrow> 'c NURBSCurve3D" where
  "clear s =
     (let s1 = (if curve s \<noteq> None then s\<lparr>curve := None\<rparr> else s)
      in s1\<lparr>points := []\<rparr>)"

definition simplify ::
  "'c sisl \<Rightarrow> 'c NURBSCurve3D \<Rightarrow> real \<Rightarrow> (error + real list) \<times> 'c NURBSCurve3D" where
  "simplify L s tolerance =
     (if curve s = None then (Inl (runtime_error ''the curve is not initialized''), s)
      else case s1940 L (curve s) [tolerance, tolerance, tolerance]
                  (curve_order s) (curve_order s) 1 10 of
        (result, maxerr, status) \<Rightarrow>
          if status \<noteq> 0
          then (Inl (runtime_error ''SISL error while simplifying a curve''), s)
          else (Inr [maxerr 0, maxerr 1, maxerr 2], s\<lparr>curve := result\<rparr>))"

subsection \<open>Closest points\<close>

text \<open>
  \<open>findClosestPoints\<close> writes into two vectors of the caller: they are arguments and
  come back with the result.  The two \<open>for\<close> loops push the entries \<open>0, \<dots>, count - 1\<close>
  of the arrays s1953 returned, the intervals as pairs \<open>(epar1[0], epar1[1])\<close>.
\<close>

definition findClosestPoints ::
  "'c sisl \<Rightarrow> 'c NURBSCurve3D \<Rightarrow> Vector3d \<Rightarrow> real list \<Rightarrow> (real \<times> real) list \<Rightarrow> real
     \<Rightarrow> (error + unit) \<times> real list \<times> (real \<times> real) list" where
  "findClosestPoints L s pt result_points result_curves geores =
     (case s1953 L (curve s) [x3 pt, y3 pt, z3 pt] DIM geores geores of
        (points_count, pts, curves_count, curves, status) \<Rightarrow>
          if status \<noteq> 0
          then (Inl (runtime_error ''failed to find the closes points''),
                result_points, result_curves)
          else (Inr (),
                result_points @ map pts [0..<nat points_count],
                result_curves @
                  map (\<lambda>i. (epar1 (curves i) 0, epar1 (curves i) 1)) [0..<nat curves_count]))"

definition findOneClosestPoint ::
  "'c sisl \<Rightarrow> 'c NURBSCurve3D \<Rightarrow> Vector3d \<Rightarrow> real \<Rightarrow> error + real" where
  "findOneClosestPoint L s pt geores =
     (case findClosestPoints L s pt [] [] geores of
        (Inl e, pts, curves) \<Rightarrow> Inl e
      | (Inr _, pts, curves) \<Rightarrow>
          if pts = [] then
            (if curves = []
             then Inl (logic_error ''no closes point returned by findClosestPoints'')
             else Inr (fst (hd curves)))
          else Inr (hd pts))"

definition localClosestPointSearch ::
  "'c sisl \<Rightarrow> 'c NURBSCurve3D \<Rightarrow> Vector3d \<Rightarrow> real \<Rightarrow> real \<Rightarrow> real \<Rightarrow> real \<Rightarrow> error + real" where
  "localClosestPointSearch L s pt guess start' end' geores =
     (case s1774 L (curve s) [x3 pt, y3 pt, z3 pt] DIM geores start' end' guess of
        (param, status) \<Rightarrow>
          if status < 0 then Inl (runtime_error ''failed to find the closest points'')
          else Inr param)"

subsection \<open>Frenet frame and heading\<close>

text \<open>
  Neither function has a \<open>throw\<close>; they return in the same result type as the others
  because \<open>headingError\<close> and \<open>distanceError\<close> compose them with functions that throw.
  The status of s2559 is not read.
\<close>

definition getFrenetFrame :: "'c sisl \<Rightarrow> 'c NURBSCurve3D \<Rightarrow> real \<Rightarrow> error + Matrix3d" where
  "getFrenetFrame L s param =
     (case s2559 L (curve s) param 1 of
        (t, n, b, status) \<Rightarrow>
          Inr (Matrix3d (Vector3d (t 0) (t 1) (t 2))
                        (Vector3d (n 0) (n 1) (n 2))
                        (Vector3d (b 0) (b 1) (b 2))))"

definition getHeading :: "'c sisl \<Rightarrow> 'c NURBSCurve3D \<Rightarrow> real \<Rightarrow> error + real" where
  "getHeading L s param =
     (case getFrenetFrame L s param of
        Inl e \<Rightarrow> Inl e
      | Inr frame \<Rightarrow>
          let Xaxis = normalize2 (Vector2d (x3 (row0 frame)) (y3 (row0 frame)))
          in Inr (atan2 (y2 Xaxis) (x2 Xaxis)))"

subsection \<open>Path-tracking errors\<close>

definition headingError :: "'c sisl \<Rightarrow> 'c NURBSCurve3D \<Rightarrow> real \<Rightarrow> real \<Rightarrow> error + real" where
  "headingError L s actZRot param =
     (case getHeading L s param of
        Inl e \<Rightarrow> Inl e
      | Inr heading \<Rightarrow>
          let error = actZRot - heading in
          if error > M_PI then Inr (error - M_2_PI)
          else if error < - M_PI then Inr (error + M_2_PI)
          else Inr error)"

definition distanceError :: "'c sisl \<Rightarrow> 'c NURBSCurve3D \<Rightarrow> Vector3d \<Rightarrow> real \<Rightarrow> error + real" where
  "distanceError L s pt param =
     (case getPoint L s param of
        Inl e \<Rightarrow> Inl e
      | Inr c \<Rightarrow>
          let d = minus3 pt c;
              error = Vector3d (x3 d) (y3 d) 0;
              pt_vec = normalize2 (Vector2d (x3 error) (y3 error))
          in (case getHeading L s param of
                Inl e \<Rightarrow> Inl e
              | Inr heading \<Rightarrow>
                  (let angle = atan2 (y2 pt_vec) (x2 pt_vec) - heading
                   in Inr (if angle \<ge> 0 then norm3 error else - norm3 error))))"

section \<open>Reflection across the tangent line\<close>

text \<open>
  The mirror image of \<open>pt\<close>, in the horizontal plane, in the line through \<open>c\<close> with the
  unit direction \<open>u\<close>; the height of \<open>pt\<close> is kept.  This is not code of the class: the
  property of \<open>distanceError\<close> under reflection is stated with it.
\<close>

definition reflect_across :: "Vector3d \<Rightarrow> Vector2d \<Rightarrow> Vector3d \<Rightarrow> Vector3d" where
  "reflect_across c u pt =
     (let ex = x3 pt - x3 c;
          ey = y3 pt - y3 c;
          k = 2 * (ex * x2 u + ey * y2 u)
      in Vector3d (x3 c + (k * x2 u - ex)) (y3 c + (k * y2 u - ey)) (z3 pt))"

text \<open>
  The planar distance between two points and the planar angle of the vector from \<open>c\<close>
  to \<open>pt\<close>, both ignoring the height: the quantities the properties of
  \<open>distanceError\<close> are stated in.
\<close>

definition planar_distance :: "Vector3d \<Rightarrow> Vector3d \<Rightarrow> real" where
  "planar_distance p q = sqrt ((x3 p - x3 q)\<^sup>2 + (y3 p - y3 q)\<^sup>2)"

definition planar_angle :: "Vector3d \<Rightarrow> Vector3d \<Rightarrow> real" where
  "planar_angle c pt = atan2 (y3 pt - y3 c) (x3 pt - x3 c)"

text \<open>
  The tangent line of the curve at \<open>param\<close>: through \<open>getPoint\<close>, along the normalised
  horizontal part of the first row of \<open>getFrenetFrame\<close> (the \<open>Xaxis\<close> of \<open>getHeading\<close>).
  Where \<open>getPoint\<close> throws there is no such line and the point is returned as it is.
\<close>

definition tangent_reflection ::
  "'c sisl \<Rightarrow> 'c NURBSCurve3D \<Rightarrow> real \<Rightarrow> Vector3d \<Rightarrow> Vector3d" where
  "tangent_reflection L s param pt =
     (case getPoint L s param of
        Inl e \<Rightarrow> pt
      | Inr c \<Rightarrow>
          (case getFrenetFrame L s param of
             Inl e \<Rightarrow> pt
           | Inr frame \<Rightarrow>
               reflect_across c
                 (normalize2 (Vector2d (x3 (row0 frame)) (y3 (row0 frame)))) pt))"

section \<open>A concrete SISL for evaluation\<close>

text \<open>
  A stand-in for SISL on which the functions can be run.  Every routine returns the
  status \<open>st\<close>; curves are numbered.  Curve \<open>k\<close> has the length \<open>7 - 2 * k\<close> and the
  curvature \<open>k + 1\<close> everywhere, so that the values of two curves differ; its point at
  the parameter \<open>a\<close> is \<open>(a, 0, 0)\<close> and its Frenet frame is the standard basis.  A fit
  returns curve 1 over \<open>[0, 2]\<close>.  With a status other than 0, s1240 and s1356 leave the
  members they were handed untouched.
\<close>

definition axis :: "real \<Rightarrow> real \<Rightarrow> real \<Rightarrow> nat \<Rightarrow> real" where
  "axis a b c i = (if i = 0 then a else if i = 1 then b else c)"

definition number_of :: "nat option \<Rightarrow> real" where
  "number_of c = (case c of None \<Rightarrow> 0 | Some k \<Rightarrow> real k)"

definition test_sisl :: "int \<Rightarrow> nat sisl" where
  "test_sisl st =
     \<lparr> s1363 = (\<lambda>c. (1, 3, st)),
       s1227 = (\<lambda>c ider ax. (axis ax 0 0, st)),
       s2550 = (\<lambda>c ax n. (number_of c + 1, st)),
       s2556 = (\<lambda>c ax n. (0, st)),
       s1240 = (\<lambda>c eps len. (if st = 0 then 7 - 2 * number_of c else len, st)),
       s1356 = (\<lambda>epoint inbpnt idim nptyp icnsta icnend iopen ik astpar cendpar rc.
                  if st = 0 then (2, Some 1, st) else (cendpar, rc, st)),
       s1953 = (\<lambda>c pt idim epsco epsge.
                  (1, axis (pt ! 0) 0 0, 0, (\<lambda>i. \<lparr> epar1 = axis 0 0 0 \<rparr>), st)),
       s1774 = (\<lambda>c pt idim eps start' end' guess. (guess, st)),
       s2559 = (\<lambda>c ax n. (axis 1 0 0, axis 0 1 0, axis 0 0 1, st)),
       s1940 = (\<lambda>c eps startfix endfix iopen itmax. (c, axis 0 0 0, st)) \<rparr>"

text \<open>
  An object as the constructor builds it around curve 0 of that library, and the same
  object after \<open>getCurveLength\<close> and \<open>getCurvatureMax\<close> have filled both caches.
\<close>

definition test_curve :: "nat NURBSCurve3D" where
  "test_curve =
     \<lparr> curve = Some 0, geometric_resolution = 5 / 2, curve_order = 3,
       points = [Vector3d 0 0 0, Vector3d 1 0 0, Vector3d 2 0 0],
       start_param = 1, end_param = 3,
       has_curve_length = False, curve_length = - 1,
       has_curvature_max = False, curvature_max = - 1 \<rparr>"

definition cached_curve :: "nat NURBSCurve3D" where
  "cached_curve =
     test_curve\<lparr> has_curve_length := True, curve_length := 7,
                  has_curvature_max := True, curvature_max := 1 \<rparr>"

text \<open>
  The same library with a global search that returns \<open>pc\<close> points \<open>5, 6, \<dots>\<close> and \<open>cc\<close>
  intervals \<open>(4, 6), (5, 7), \<dots>\<close>.
\<close>

definition search_sisl :: "int \<Rightarrow> int \<Rightarrow> nat sisl" where
  "search_sisl pc cc =
     (test_sisl 0)\<lparr> s1953 := (\<lambda>c pt idim epsco epsge.
        (pc, (\<lambda>i. 5 + real i), cc, (\<lambda>i. \<lparr> epar1 = axis (4 + real i) (6 + real i) 0 \<rparr>), 0)) \<rparr>"

text \<open>
  A curve running west: the point at the parameter \<open>a\<close> is \<open>(- a, 0, 0)\<close> and the tangent
  is \<open>(-1, 0, 0)\<close>, so the heading is \<open>pi\<close>.
\<close>

definition westward_sisl :: "nat sisl" where
  "westward_sisl =
     (test_sisl 0)\<lparr> s1227 := (\<lambda>c ider ax. (axis (- ax) 0 0, 0)),
                     s2559 := (\<lambda>c ax n. (axis (- 1) 0 0, axis 0 (- 1) 0, axis 0 0 1, 0)) \<rparr>"

text \<open>
  A curve running north-west: the point at the parameter \<open>a\<close> is \<open>(- a, a, 0)\<close> and the
  tangent is \<open>(-1, 1, 0)\<close>, so the heading is \<open>3 * pi / 4\<close>.  No coordinate that reaches
  \<open>atan2\<close> is zero.
\<close>

definition northwest_sisl :: "nat sisl" where
  "northwest_sisl =
     (test_sisl 0)\<lparr> s1227 := (\<lambda>c ider ax. (axis (- ax) ax 0, 0)),
                     s2559 := (\<lambda>c ax n. (axis (- 1) 1 0, axis (- 1) (- 1) 0, axis 0 0 1, 0)) \<rparr>"

section \<open>Properties\<close>

subsection \<open>Auxiliary facts\<close>

lemma hd_map_upt: "0 < n \<Longrightarrow> hd (map f [0..<n]) = f 0"
  by (simp add: upt_conv_Cons hd_map)

lemma test_curve_constructed:
  "NURBSCurve3D_from_curve (test_sisl 0) (5 / 2) 3
     [Vector3d 0 0 0, Vector3d 1 0 0, Vector3d 2 0 0] (Some 0) = Inr test_curve"
  by (simp add: NURBSCurve3D_from_curve_def test_sisl_def test_curve_def)

lemma update_keeps_caches:
  "has_curve_length (snd (update L s)) = has_curve_length s \<and>
   curve_length (snd (update L s)) = curve_length s \<and>
   has_curvature_max (snd (update L s)) = has_curvature_max s \<and>
   curvature_max (snd (update L s)) = curvature_max s"
  by (simp add: update_def Let_def split: prod.splits)

lemma clear_keeps_caches:
  "has_curve_length (clear s) = has_curve_length s \<and>
   curve_length (clear s) = curve_length s \<and>
   has_curvature_max (clear s) = has_curvature_max s \<and>
   curvature_max (clear s) = curvature_max s"
  by (simp add: clear_def Let_def)

subsection \<open>Facts about atan2 and normalisation\<close>

text \<open>
  \<open>atan2 y x\<close> lies in \<open>(-pi, pi]\<close> and is the polar angle of \<open>(x, y)\<close>: it agrees with
  the argument of the complex number \<open>x + iy\<close>, and it recovers the angle of a vector
  given in polar form.  Normalising a vector does not change its angle, so the heading
  is \<open>atan2\<close> of the tangent itself.
\<close>

lemma atan2_bounds: "- pi < atan2 y x \<and> atan2 y x \<le> pi"
proof -
  have b: "- (pi / 2) < arctan (y / x)" "arctan (y / x) < pi / 2"
    by (rule arctan_lbound, rule arctan_ubound)
  have neg: "x < 0 \<Longrightarrow> y < 0 \<Longrightarrow> 0 < arctan (y / x)"
    by (simp add: zero_less_arctan_iff divide_neg_neg)
  have pos: "x < 0 \<Longrightarrow> 0 \<le> y \<Longrightarrow> arctan (y / x) \<le> 0"
    by (simp add: arctan_le_zero_iff divide_nonneg_neg)
  show ?thesis
    using b neg pos pi_gt_zero by (auto simp: atan2_def)
qed

lemma hyp_pos: "(x::real) \<noteq> 0 \<or> y \<noteq> 0 \<Longrightarrow> 0 < sqrt (x\<^sup>2 + y\<^sup>2)"
  by (auto simp: sum_power2_gt_zero_iff)

lemma sqrt_ratio:
  assumes "(x::real) \<noteq> 0"
  shows "sqrt (1 + (y / x)\<^sup>2) = sqrt (x\<^sup>2 + y\<^sup>2) / \<bar>x\<bar>"
proof -
  have "1 + (y / x)\<^sup>2 = (x\<^sup>2 + y\<^sup>2) / x\<^sup>2"
    using assms by (simp add: field_simps power2_eq_square)
  then show ?thesis
    by (simp add: real_sqrt_divide)
qed

lemma atan2_cos_sin:
  assumes "x \<noteq> 0 \<or> y \<noteq> 0"
  shows "cos (atan2 y x) = x / sqrt (x\<^sup>2 + y\<^sup>2) \<and> sin (atan2 y x) = y / sqrt (x\<^sup>2 + y\<^sup>2)"
proof -
  have r: "0 < sqrt (x\<^sup>2 + y\<^sup>2)" using assms by (rule hyp_pos)
  consider "0 < x" | "x < 0" | "x = 0" "0 < y" | "x = 0" "y < 0"
    using assms by fastforce
  then show ?thesis
  proof cases
    case 1
    then show ?thesis
      using r by (simp add: atan2_def cos_arctan sin_arctan sqrt_ratio)
  next
    case 2
    then show ?thesis
      using r by (simp add: atan2_def cos_arctan sin_arctan sqrt_ratio cos_add sin_add cos_diff sin_diff)
  next
    case 3
    then show ?thesis by (simp add: atan2_def)
  next
    case 4
    then show ?thesis by (simp add: atan2_def)
  qed
qed

lemma atan2_eq_Arg: "atan2 y x = Arg (Complex x y)"
proof (cases "x = 0 \<and> y = 0")
  case True
  then show ?thesis by (simp add: atan2_def Arg_def zero_complex.code)
next
  case False
  then have nz: "x \<noteq> 0 \<or> y \<noteq> 0" by blast
  have "sgn (Complex x y) = cis (atan2 y x)"
    using atan2_cos_sin [OF nz]
    by (simp add: complex_eq_iff sgn_eq cmod_def)
  then show ?thesis
    using atan2_bounds [of y x] by (simp add: cis_Arg_unique)
qed

lemma atan2_polar:
  assumes "0 < r" "- pi < a" "a \<le> pi"
  shows "atan2 (r * sin a) (r * cos a) = a"
proof -
  have "cmod (Complex (r * cos a) (r * sin a)) = r"
  proof -
    have "(r * cos a)\<^sup>2 + (r * sin a)\<^sup>2 = r\<^sup>2 * ((cos a)\<^sup>2 + (sin a)\<^sup>2)"
      by (simp only: power_mult_distrib distrib_left)
    also have "\<dots> = r\<^sup>2" by simp
    finally show ?thesis using assms(1) by (simp add: cmod_def)
  qed
  then have "sgn (Complex (r * cos a) (r * sin a)) = cis a"
    using assms(1) by (simp add: complex_eq_iff sgn_eq)
  then show ?thesis
    using assms by (simp add: atan2_eq_Arg cis_Arg_unique)
qed

lemma atan2_normalize2:
  "atan2 (y2 (normalize2 v)) (x2 (normalize2 v)) = atan2 (y2 v) (x2 v)"
proof (cases "x2 v = 0 \<and> y2 v = 0")
  case True
  then show ?thesis by (simp add: normalize2_def)
next
  case False
  then have r: "0 < norm2 v" by (auto simp: norm2_def sum_power2_gt_zero_iff)
  then show ?thesis
    by (simp add: normalize2_def atan2_def zero_less_divide_iff divide_less_0_iff
          zero_le_divide_iff)
qed

lemma getHeading_value:
  "getHeading L s param =
     Inr (atan2 (fst (s2559 L (curve s) param 1) 1) (fst (s2559 L (curve s) param 1) 0))"
  by (simp add: getHeading_def getFrenetFrame_def Let_def case_prod_beta atan2_normalize2)

subsection \<open>Facts about reflection\<close>

text \<open>
  The mirror image of the vector with polar form \<open>(r, a)\<close> in the direction \<open>h\<close> has the
  polar form \<open>(r, 2 * h - a)\<close>; \<open>distanceError\<close> in closed form; and \<open>distanceError\<close> of
  the mirrored point when the mirrored angle needs no wrapping.
\<close>

lemma norm_polar: "0 < r \<Longrightarrow> sqrt ((r * cos b)\<^sup>2 + (r * sin b)\<^sup>2) = r"
proof -
  assume r: "0 < r"
  have "(r * cos b)\<^sup>2 + (r * sin b)\<^sup>2 = r\<^sup>2 * ((cos b)\<^sup>2 + (sin b)\<^sup>2)"
    by (simp only: power_mult_distrib distrib_left)
  also have "\<dots> = r\<^sup>2" by simp
  finally show ?thesis using r by simp
qed

lemma mirror_cos:
  fixes a h :: real
  shows "2 * (cos a * cos h + sin a * sin h) * cos h - cos a = cos (2 * h - a)"
proof -
  have s: "sin h * sin h = 1 - cos h * cos h"
    using sin_cos_squared_add [of h] by (simp add: power2_eq_square)
  have "cos (2 * h - a) = (cos h * cos h - sin h * sin h) * cos a + 2 * sin h * cos h * sin a"
    by (simp add: cos_diff cos_double sin_double power2_eq_square)
  also have "\<dots> = 2 * (cos a * cos h + sin a * sin h) * cos h - cos a"
    by (simp add: s algebra_simps)
  finally show ?thesis by simp
qed

lemma mirror_sin:
  fixes a h :: real
  shows "2 * (cos a * cos h + sin a * sin h) * sin h - sin a = sin (2 * h - a)"
proof -
  have c: "cos h * cos h = 1 - sin h * sin h"
    using sin_cos_squared_add [of h] by (simp add: power2_eq_square)
  have "sin (2 * h - a) = 2 * sin h * cos h * cos a - (cos h * cos h - sin h * sin h) * sin a"
    by (simp add: sin_diff cos_double sin_double power2_eq_square)
  also have "\<dots> = 2 * (cos a * cos h + sin a * sin h) * sin h - sin a"
    by (simp add: c algebra_simps)
  finally show ?thesis by simp
qed

lemma distanceError_value:
  assumes "getPoint L s param = Inr c"
  shows "distanceError L s pt param =
           Inr (if atan2 (y3 pt - y3 c) (x3 pt - x3 c)
                     - atan2 (fst (s2559 L (curve s) param 1) 1) (fst (s2559 L (curve s) param 1) 0) \<ge> 0
                then sqrt ((x3 pt - x3 c)\<^sup>2 + (y3 pt - y3 c)\<^sup>2)
                else - sqrt ((x3 pt - x3 c)\<^sup>2 + (y3 pt - y3 c)\<^sup>2))"
  using atan2_normalize2 [of "Vector2d (x3 pt - x3 c) (y3 pt - y3 c)"]
  by (simp add: distanceError_def assms getHeading_value minus3_def norm3_def Let_def)

lemma normalize2_polar:
  assumes "x \<noteq> 0 \<or> y \<noteq> 0"
  shows "normalize2 (Vector2d x y) = Vector2d (cos (atan2 y x)) (sin (atan2 y x))"
  using atan2_cos_sin [OF assms] by (simp add: normalize2_def norm2_def)

lemma tangent_reflection_value:
  assumes "getPoint L s param = Inr c"
  shows "tangent_reflection L s param pt =
           reflect_across c
             (normalize2 (Vector2d (fst (s2559 L (curve s) param 1) 0)
                                   (fst (s2559 L (curve s) param 1) 1))) pt"
  by (simp add: tangent_reflection_def assms getFrenetFrame_def case_prod_beta)

lemma reflected_error:
  fixes ex ey h :: real
  assumes nz: "ex \<noteq> 0 \<or> ey \<noteq> 0"
  defines "a \<equiv> atan2 ey ex" and "r \<equiv> sqrt (ex\<^sup>2 + ey\<^sup>2)"
  shows "2 * (ex * cos h + ey * sin h) * cos h - ex = r * cos (2 * h - a)"
    and "2 * (ex * cos h + ey * sin h) * sin h - ey = r * sin (2 * h - a)"
proof -
  have r: "0 < r" unfolding r_def using nz by (rule hyp_pos)
  have ex: "ex = r * cos a" and ey: "ey = r * sin a"
    using atan2_cos_sin [OF nz] r by (simp_all add: a_def r_def)
  have "2 * ((r * cos a) * cos h + (r * sin a) * sin h) * cos h - r * cos a
          = r * (2 * (cos a * cos h + sin a * sin h) * cos h - cos a)"
    by (simp add: algebra_simps)
  also have "\<dots> = r * cos (2 * h - a)"
    by (simp only: mirror_cos)
  finally show "2 * (ex * cos h + ey * sin h) * cos h - ex = r * cos (2 * h - a)"
    by (simp only: ex [symmetric] ey [symmetric])
  have "2 * ((r * cos a) * cos h + (r * sin a) * sin h) * sin h - r * sin a
          = r * (2 * (cos a * cos h + sin a * sin h) * sin h - sin a)"
    by (simp add: algebra_simps)
  also have "\<dots> = r * sin (2 * h - a)"
    by (simp only: mirror_sin)
  finally show "2 * (ex * cos h + ey * sin h) * sin h - ey = r * sin (2 * h - a)"
    by (simp only: ex [symmetric] ey [symmetric])
qed

lemma distanceError_mirrored:
  fixes L :: "'c sisl" and s :: "'c NURBSCurve3D"
  assumes gp: "getPoint L s param = Inr c"
    and e: "x3 pt - x3 c \<noteq> 0 \<or> y3 pt - y3 c \<noteq> 0"
    and t: "fst (s2559 L (curve s) param 1) 0 \<noteq> 0 \<or> fst (s2559 L (curve s) param 1) 1 \<noteq> 0"
    and lo: "- pi < 2 * atan2 (fst (s2559 L (curve s) param 1) 1) (fst (s2559 L (curve s) param 1) 0)
                    - atan2 (y3 pt - y3 c) (x3 pt - x3 c)"
    and hi: "2 * atan2 (fst (s2559 L (curve s) param 1) 1) (fst (s2559 L (curve s) param 1) 0)
               - atan2 (y3 pt - y3 c) (x3 pt - x3 c) \<le> pi"
  shows "distanceError L s (tangent_reflection L s param pt) param =
           Inr (if atan2 (fst (s2559 L (curve s) param 1) 1) (fst (s2559 L (curve s) param 1) 0)
                     - atan2 (y3 pt - y3 c) (x3 pt - x3 c) \<ge> 0
                then sqrt ((x3 pt - x3 c)\<^sup>2 + (y3 pt - y3 c)\<^sup>2)
                else - sqrt ((x3 pt - x3 c)\<^sup>2 + (y3 pt - y3 c)\<^sup>2))"
proof -
  define t0 where "t0 = fst (s2559 L (curve s) param 1) 0"
  define t1 where "t1 = fst (s2559 L (curve s) param 1) 1"
  define ex where "ex = x3 pt - x3 c"
  define ey where "ey = y3 pt - y3 c"
  define h where "h = atan2 t1 t0"
  define a where "a = atan2 ey ex"
  define r where "r = sqrt (ex\<^sup>2 + ey\<^sup>2)"
  define q where "q = tangent_reflection L s param pt"
  have nz: "ex \<noteq> 0 \<or> ey \<noteq> 0" using e by (simp add: ex_def ey_def)
  have r: "0 < r" unfolding r_def using nz by (rule hyp_pos)
  have u: "normalize2 (Vector2d t0 t1) = Vector2d (cos h) (sin h)"
    unfolding h_def using t by (intro normalize2_polar) (simp add: t0_def t1_def)
  have q: "q = reflect_across c (Vector2d (cos h) (sin h)) pt"
    unfolding q_def tangent_reflection_value [OF gp] using u by (simp add: t0_def t1_def)
  have qx: "x3 q - x3 c = r * cos (2 * h - a)"
    using reflected_error(1) [OF nz, of h]
    by (simp add: q reflect_across_def Let_def ex_def ey_def a_def r_def)
  have qy: "y3 q - y3 c = r * sin (2 * h - a)"
    using reflected_error(2) [OF nz, of h]
    by (simp add: q reflect_across_def Let_def ex_def ey_def a_def r_def)
  have range: "- pi < 2 * h - a" "2 * h - a \<le> pi"
    using lo hi by (simp_all add: h_def a_def t0_def t1_def ex_def ey_def)
  have ang: "atan2 (y3 q - y3 c) (x3 q - x3 c) = 2 * h - a"
    unfolding qx qy using r range by (rule atan2_polar)
  have len: "sqrt ((x3 q - x3 c)\<^sup>2 + (y3 q - y3 c)\<^sup>2) = r"
    unfolding qx qy using r by (rule norm_polar)
  have "distanceError L s q param = Inr (if (2 * h - a) - h \<ge> 0 then r else - r)"
    unfolding distanceError_value [OF gp] ang len by (simp add: h_def t0_def t1_def)
  moreover have "((2 * h - a) - h \<ge> 0) = (h - a \<ge> 0)" by simp
  ultimately show ?thesis
    by (simp add: q_def h_def a_def r_def t0_def t1_def ex_def ey_def)
qed

subsection \<open>Caches across fit and clear\<close>

text \<open>
  C1 (as stated): after \<open>update\<close> (fit) or \<open>clear\<close>, the next \<open>getCurveLength\<close> or
  \<open>getCurvatureMax\<close> recomputes instead of returning a value cached before.  The code
  does not do that.  The object below is reached from the constructor by one
  \<open>getCurveLength\<close> and one \<open>getCurvatureMax\<close>, which cache 7 and 1.  A successful
  \<open>update\<close> then installs curve 1, whose length is 5 and whose curvature is 2 (what the
  two functions compute once the flags are reset by hand), but both functions still
  answer 7 and 1; after \<open>clear\<close> they answer 7 and 1 as well.
\<close>

theorem stale_cache_after_fit:
  "getCurveLength (test_sisl 0) test_curve =
     (Inr 7, test_curve\<lparr>curve_length := 7, has_curve_length := True\<rparr>) \<and>
   getCurvatureMax (test_sisl 0) (test_curve\<lparr>curve_length := 7, has_curve_length := True\<rparr>) =
     Some (Inr 1, cached_curve) \<and>
   update (test_sisl 0) cached_curve =
     (Inr (), cached_curve\<lparr>start_param := 0, end_param := 2, curve := Some 1\<rparr>) \<and>
   fst (getCurveLength (test_sisl 0) (snd (update (test_sisl 0) cached_curve))) = Inr 7 \<and>
   map_option fst (getCurvatureMax (test_sisl 0) (snd (update (test_sisl 0) cached_curve))) =
     Some (Inr 1) \<and>
   getCurveLength (test_sisl 0)
       (cached_curve\<lparr>start_param := 0, end_param := 2, curve := Some 1, has_curve_length := False\<rparr>) =
     (Inr 5, cached_curve\<lparr>start_param := 0, end_param := 2, curve := Some 1, curve_length := 5\<rparr>) \<and>
   map_option fst (getCurvatureMax (test_sisl 0)
       (cached_curve\<lparr>start_param := 0, end_param := 2, curve := Some 1,
                      has_curve_length := False, has_curvature_max := False\<rparr>)) =
     Some (Inr 2) \<and>
   fst (getCurveLength (test_sisl 0) (clear cached_curve)) = Inr 7 \<and>
   map_option fst (getCurvatureMax (test_sisl 0) (clear cached_curve)) = Some (Inr 1)"
  by (simp add: getCurvatureMax_def getUnitParameter_def getCurveLength_def getCurvature_def
       curvature_loop.simps update_def clear_def getPointCount_def DIM_def
       test_sisl_def test_curve_def cached_curve_def number_of_def Let_def)

text \<open>
  C1 (amended): neither \<open>update\<close> nor \<open>clear\<close> touches the caches.  The two flags are the
  same after either of them, whether \<open>update\<close> succeeds or throws; when a length
  (a maximum curvature) was cached before, the next \<open>getCurveLength\<close>
  (\<open>getCurvatureMax\<close>) returns that cached value, whatever the library \<open>L'\<close> would
  compute.
\<close>

theorem caches_survive_fit_and_clear:
  "(has_curve_length s \<longrightarrow>
      fst (getCurveLength L' (snd (update L s))) = Inr (curve_length s) \<and>
      fst (getCurveLength L' (clear s)) = Inr (curve_length s)) \<and>
   (has_curvature_max s \<longrightarrow>
      map_option fst (getCurvatureMax L' (snd (update L s))) = Some (Inr (curvature_max s)) \<and>
      map_option fst (getCurvatureMax L' (clear s)) = Some (Inr (curvature_max s))) \<and>
   has_curve_length (snd (update L s)) = has_curve_length s \<and>
   has_curvature_max (snd (update L s)) = has_curvature_max s \<and>
   has_curve_length (clear s) = has_curve_length s \<and>
   has_curvature_max (clear s) = has_curvature_max s"
  by (simp add: getCurveLength_def getCurvatureMax_def update_keeps_caches clear_keeps_caches)

theorem caches_survive_fit_and_clear_witness:
  "has_curve_length cached_curve \<and> has_curvature_max cached_curve \<and>
   fst (getCurveLength (test_sisl 0) (snd (update (test_sisl 0) cached_curve))) = Inr 7 \<and>
   fst (getCurveLength (test_sisl 0) (clear cached_curve)) = Inr 7 \<and>
   map_option fst (getCurvatureMax (test_sisl 0) (snd (update (test_sisl 0) cached_curve))) =
     Some (Inr 1) \<and>
   map_option fst (getCurvatureMax (test_sisl 0) (clear cached_curve)) = Some (Inr 1)"
  using caches_survive_fit_and_clear [of cached_curve "test_sisl 0" "test_sisl 0"]
  by (simp add: cached_curve_def test_curve_def)

subsection \<open>Failure and the state of the object\<close>

text \<open>
  C3 (as stated): an operation that fails leaves the curve handle, the domain and the
  caches exactly as they were.  \<open>update\<close> does not: with a library that reports the
  status -1 and writes nothing, the object that had curve 0 over \<open>[1, 3]\<close> comes back
  with a null curve and \<open>start_param = 0\<close>.
\<close>

theorem failed_fit_changes_state:
  "update (test_sisl (- 1)) test_curve =
     (Inl (runtime_error ''cannot generate the curve''),
      test_curve\<lparr>start_param := 0, curve := None\<rparr>) \<and>
   start_param test_curve = 1 \<and> curve test_curve = Some 0"
  by (simp add: update_def getPointCount_def DIM_def test_sisl_def test_curve_def Let_def)

text \<open>
  C3 (amended): \<open>simplify\<close> is atomic with respect to failure: when it throws (no curve,
  or a status other than 0) the object is exactly as before.  \<open>update\<close> is not: when it
  throws, \<open>start_param\<close> is 0, the previous curve is gone, and \<open>end_param\<close> and \<open>curve\<close>
  hold what s1356 left in them when called on a null curve; the control points, the
  order, the resolution and both caches are as before.
\<close>

theorem failure_effects:
  "(\<forall>e. fst (simplify L s tolerance) = Inl e \<longrightarrow> snd (simplify L s tolerance) = s) \<and>
   (\<forall>e. fst (update L s) = Inl e \<longrightarrow>
      snd (update L s) =
        s\<lparr>start_param := 0,
          end_param := fst (s1356 L (concat (map (\<lambda>v. [x3 v, y3 v, z3 v]) (points s)))
                              (int (length (points s))) 3 (map (\<lambda>v. 1) (points s)) 0 0 1
                              (curve_order s) 0 (end_param s) None),
          curve := fst (snd (s1356 L (concat (map (\<lambda>v. [x3 v, y3 v, z3 v]) (points s)))
                              (int (length (points s))) 3 (map (\<lambda>v. 1) (points s)) 0 0 1
                              (curve_order s) 0 (end_param s) None))\<rparr>)"
proof (intro conjI allI impI)
  fix e assume "fst (simplify L s tolerance) = Inl e"
  then show "snd (simplify L s tolerance) = s"
    by (simp add: simplify_def split: if_splits prod.splits)
next
  fix e assume "fst (update L s) = Inl e"
  show "snd (update L s) =
        s\<lparr>start_param := 0,
          end_param := fst (s1356 L (concat (map (\<lambda>v. [x3 v, y3 v, z3 v]) (points s)))
                              (int (length (points s))) 3 (map (\<lambda>v. 1) (points s)) 0 0 1
                              (curve_order s) 0 (end_param s) None),
          curve := fst (snd (s1356 L (concat (map (\<lambda>v. [x3 v, y3 v, z3 v]) (points s)))
                              (int (length (points s))) 3 (map (\<lambda>v. 1) (points s)) 0 0 1
                              (curve_order s) 0 (end_param s) None))\<rparr>"
    by (cases "curve s")
       (simp_all add: update_def getPointCount_def DIM_def Let_def split: prod.splits)
qed

theorem failure_effects_witness:
  "fst (simplify (test_sisl (- 1)) test_curve (1/10)) =
     Inl (runtime_error ''SISL error while simplifying a curve'') \<and>
   snd (simplify (test_sisl (- 1)) test_curve (1/10)) = test_curve \<and>
   fst (update (test_sisl (- 1)) test_curve) = Inl (runtime_error ''cannot generate the curve'') \<and>
   snd (update (test_sisl (- 1)) test_curve) = test_curve\<lparr>start_param := 0, curve := None\<rparr>"
  using failure_effects [of "test_sisl (- 1)" test_curve "1/10"]
  by (simp add: simplify_def update_def test_sisl_def test_curve_def getPointCount_def DIM_def Let_def)

subsection \<open>Evaluation inside and outside the domain\<close>

text \<open>
  C4: for every parameter in \<open>[start_param, end_param]\<close> on which s1227 reports status
  0, \<open>getPoint\<close> returns the point s1227 wrote; for every parameter strictly outside the
  interval it throws \<open>out_of_range\<close>.  (The code does not look at \<open>curve\<close>, so the first
  half needs no hypothesis on it.)
\<close>

theorem getPoint_domain:
  "(start_param s \<le> param \<and> param \<le> end_param s \<and> snd (s1227 L (curve s) 0 param) = 0 \<longrightarrow>
      getPoint L s param =
        Inr (Vector3d (fst (s1227 L (curve s) 0 param) 0)
                      (fst (s1227 L (curve s) 0 param) 1)
                      (fst (s1227 L (curve s) 0 param) 2))) \<and>
   (param < start_param s \<or> end_param s < param \<longrightarrow>
      getPoint L s param =
        Inl (out_of_range ''_param is not in the [start_param, end_param] range''))"
  by (auto simp: getPoint_def split: prod.splits)

theorem getPoint_domain_witness:
  "getPoint (test_sisl 0) test_curve 1 = Inr (Vector3d 1 0 0) \<and>
   getPoint (test_sisl 0) test_curve 3 = Inr (Vector3d 3 0 0) \<and>
   getPoint (test_sisl 0) test_curve (7/2) =
     Inl (out_of_range ''_param is not in the [start_param, end_param] range'') \<and>
   getPoint (test_sisl 0) test_curve (1/2) =
     Inl (out_of_range ''_param is not in the [start_param, end_param] range'')"
  using getPoint_domain [of test_curve 1 "test_sisl 0"]
        getPoint_domain [of test_curve 3 "test_sisl 0"]
        getPoint_domain [of test_curve "7/2" "test_sisl 0"]
        getPoint_domain [of test_curve "1/2" "test_sisl 0"]
  by (simp add: test_sisl_def test_curve_def axis_def)

subsection \<open>Closest-point search\<close>

text \<open>
  C6: when the global search succeeds, \<open>findOneClosestPoint\<close> returns the first exact
  point if s1953 found at least one; otherwise the start of the first interval if
  there is one; otherwise it throws \<open>logic_error\<close> (no closest point).
\<close>

theorem findOneClosestPoint_cases:
  assumes "s1953 L (curve s) [x3 pt, y3 pt, z3 pt] DIM geores geores =
             (points_count, pts, curves_count, crvs, 0)"
  shows "findOneClosestPoint L s pt geores =
           (if 0 < points_count then Inr (pts 0)
            else if 0 < curves_count then Inr (epar1 (crvs 0) 0)
            else Inl (logic_error ''no closes point returned by findClosestPoints''))"
  using assms
  by (simp add: findOneClosestPoint_def findClosestPoints_def hd_map_upt)

theorem findOneClosestPoint_cases_witness:
  "findOneClosestPoint (search_sisl 2 1) test_curve (Vector3d 5 1 0) (1/10) = Inr 5 \<and>
   findOneClosestPoint (search_sisl 0 2) test_curve (Vector3d 5 1 0) (1/10) = Inr 4 \<and>
   findOneClosestPoint (search_sisl 0 0) test_curve (Vector3d 5 1 0) (1/10) =
     Inl (logic_error ''no closes point returned by findClosestPoints'')"
proof -
  have run: "s1953 (search_sisl pc cc) (curve test_curve)
               [x3 (Vector3d 5 1 0), y3 (Vector3d 5 1 0), z3 (Vector3d 5 1 0)] DIM (1/10) (1/10) =
             (pc, (\<lambda>i. 5 + real i), cc, (\<lambda>i. \<lparr> epar1 = axis (4 + real i) (6 + real i) 0 \<rparr>), 0)"
    for pc cc
    by (simp add: search_sisl_def)
  show ?thesis
    using findOneClosestPoint_cases [OF run [of 2 1]]
          findOneClosestPoint_cases [OF run [of 0 2]]
          findOneClosestPoint_cases [OF run [of 0 0]]
    by (simp add: axis_def)
qed

text \<open>
  C8: \<open>localClosestPointSearch\<close> throws exactly when s1774 reports a status below 0, and
  returns the parameter s1774 found for every other status, positive ones included;
  \<open>findClosestPoints\<close> throws exactly when s1953 reports a status other than 0.
\<close>

theorem search_status_conventions:
  "localClosestPointSearch L s pt guess start' end' geores =
     (if snd (s1774 L (curve s) [x3 pt, y3 pt, z3 pt] DIM geores start' end' guess) < 0
      then Inl (runtime_error ''failed to find the closest points'')
      else Inr (fst (s1774 L (curve s) [x3 pt, y3 pt, z3 pt] DIM geores start' end' guess))) \<and>
   fst (findClosestPoints L s pt result_points result_curves geores) =
     (if snd (snd (snd (snd (s1953 L (curve s) [x3 pt, y3 pt, z3 pt] DIM geores geores)))) \<noteq> 0
      then Inl (runtime_error ''failed to find the closes points'')
      else Inr ())"
  by (simp add: localClosestPointSearch_def findClosestPoints_def split: prod.splits)

text \<open>
  C10: a successful \<open>findClosestPoints\<close> keeps what the two vectors of the caller held
  and appends the new points and the new intervals after it.
\<close>

theorem findClosestPoints_appends:
  assumes "s1953 L (curve s) [x3 pt, y3 pt, z3 pt] DIM geores geores =
             (points_count, pts, curves_count, crvs, 0)"
  shows "findClosestPoints L s pt result_points result_curves geores =
           (Inr (),
            result_points @ map pts [0..<nat points_count],
            result_curves @
              map (\<lambda>i. (epar1 (crvs i) 0, epar1 (crvs i) 1)) [0..<nat curves_count])"
  using assms by (simp add: findClosestPoints_def)

theorem findClosestPoints_appends_witness:
  "findClosestPoints (search_sisl 2 1) test_curve (Vector3d 5 1 0) [9] [(8, 8)] (1/10) =
     (Inr (), [9, 5, 6], [(8, 8), (4, 6)])"
proof -
  have run: "s1953 (search_sisl 2 1) (curve test_curve)
               [x3 (Vector3d 5 1 0), y3 (Vector3d 5 1 0), z3 (Vector3d 5 1 0)] DIM (1/10) (1/10) =
             (2, (\<lambda>i. 5 + real i), 1, (\<lambda>i. \<lparr> epar1 = axis (4 + real i) (6 + real i) 0 \<rparr>), 0)"
    by (simp add: search_sisl_def)
  have two: "[0..<2] = [0, Suc 0]"
    by (simp add: upt_conv_Cons numeral_2_eq_2)
  show ?thesis
    using findClosestPoints_appends [OF run, of "[9]" "[(8, 8)]"]
    by (simp add: two axis_def)
qed

subsection \<open>The length cache\<close>

text \<open>
  C7: when \<open>getCurveLength\<close> returns a value, calling it again on the resulting object
  returns the same value and leaves the object as it is, whatever library \<open>L'\<close> the
  second call is given: the second call takes the cached branch and does not ask
  s1240 again.
\<close>

theorem getCurveLength_twice:
  assumes "getCurveLength L s = (Inr v, s')"
  shows "getCurveLength L' s' = (Inr v, s')"
  using assms
  by (auto simp: getCurveLength_def Let_def split: if_splits prod.splits)

text \<open>
  The second call below is given a library whose s1240 reports the status -1: a
  recomputation would throw, the cached branch returns 7.
\<close>

theorem getCurveLength_twice_witness:
  "getCurveLength (test_sisl 0) test_curve =
     (Inr 7, test_curve\<lparr>curve_length := 7, has_curve_length := True\<rparr>) \<and>
   getCurveLength (test_sisl (- 1)) (test_curve\<lparr>curve_length := 7, has_curve_length := True\<rparr>) =
     (Inr 7, test_curve\<lparr>curve_length := 7, has_curve_length := True\<rparr>) \<and>
   getCurveLength (test_sisl (- 1)) test_curve =
     (Inl (runtime_error ''cannot get the curve length''), test_curve)"
proof -
  have first: "getCurveLength (test_sisl 0) test_curve =
     (Inr 7, test_curve\<lparr>curve_length := 7, has_curve_length := True\<rparr>)"
    by (simp add: getCurveLength_def test_sisl_def test_curve_def number_of_def)
  have uncached: "getCurveLength (test_sisl (- 1)) test_curve =
     (Inl (runtime_error ''cannot get the curve length''), test_curve)"
    by (simp add: getCurveLength_def test_sisl_def test_curve_def)
  from getCurveLength_twice [OF first, of "test_sisl (- 1)"] first uncached
  show ?thesis by simp
qed

subsection \<open>Frenet frame and heading\<close>

text \<open>
  C9: \<open>getFrenetFrame\<close> never throws: for every parameter and whatever status s2559
  reports, it returns the matrix whose rows are the three arrays s2559 wrote.
  \<open>getHeading\<close>, built on it, never throws either: it returns \<open>atan2\<close> of the normalised
  first two entries of the first row.
\<close>

theorem frenet_never_fails:
  "getFrenetFrame L s param =
     Inr (Matrix3d
       (Vector3d (fst (s2559 L (curve s) param 1) 0)
                 (fst (s2559 L (curve s) param 1) 1)
                 (fst (s2559 L (curve s) param 1) 2))
       (Vector3d (fst (snd (s2559 L (curve s) param 1)) 0)
                 (fst (snd (s2559 L (curve s) param 1)) 1)
                 (fst (snd (s2559 L (curve s) param 1)) 2))
       (Vector3d (fst (snd (snd (s2559 L (curve s) param 1))) 0)
                 (fst (snd (snd (s2559 L (curve s) param 1))) 1)
                 (fst (snd (snd (s2559 L (curve s) param 1))) 2))) \<and>
   getHeading L s param =
     Inr (atan2
       (y2 (normalize2 (Vector2d (fst (s2559 L (curve s) param 1) 0)
                                 (fst (s2559 L (curve s) param 1) 1))))
       (x2 (normalize2 (Vector2d (fst (s2559 L (curve s) param 1) 0)
                                 (fst (s2559 L (curve s) param 1) 1)))))"
  by (simp add: getFrenetFrame_def getHeading_def Let_def split: prod.splits)

subsection \<open>Heading error\<close>

lemma heading0: "getHeading (test_sisl 0) test_curve 1 = Inr 0"
  by (simp add: getHeading_value test_sisl_def axis_def atan2_def)

lemma pi_margins:
  "pi < 13 - 2 / pi" "pi < 13 - 2 * pi" "- 13 + 2 / pi < - pi" "pi < 13" "- 13 < - pi"
  "pi < 5 - 2 / pi" "- pi < 5 - 2 * pi" "5 - 2 * pi \<le> pi"
proof -
  have a: "2 / pi \<le> 1" using pi_ge_two by simp
  show "pi < 13 - 2 / pi" using a pi_less_4 by linarith
  show "pi < 13 - 2 * pi" using pi_less_4 by linarith
  show "- 13 + 2 / pi < - pi" using a pi_less_4 by linarith
  show "pi < 13" using pi_less_4 by linarith
  show "- 13 < - pi" using pi_less_4 by linarith
  show "pi < 5 - 2 / pi" using a pi_less_4 by linarith
  show "- pi < 5 - 2 * pi" using pi_less_4 by linarith
  show "5 - 2 * pi \<le> pi" using pi_ge_two by linarith
qed

text \<open>
  C2 (as stated): the output of \<open>headingError\<close> always lies in \<open>(-pi, pi]\<close>, for any
  heading difference.  The code makes one conditional step and no more.  On the curve
  with heading 0: for the actual heading \<open>- pi\<close> neither test fires (\<open>error < - M_PI\<close>
  is strict) and \<open>- pi\<close> itself comes back, which is not in the half-open range; for the
  actual heading 13 one step is made and the result is above \<open>pi\<close>, as it would be
  after a step of a full turn (\<open>pi < 13 - 2 * pi\<close>).
\<close>

theorem headingError_out_of_range:
  "headingError (test_sisl 0) test_curve (- pi) 1 = Inr (- pi) \<and>
   headingError (test_sisl 0) test_curve 13 1 = Inr (13 - M_2_PI) \<and>
   pi < 13 - M_2_PI \<and> pi < 13 - 2 * pi"
  using pi_margins pi_gt_zero
  by (simp add: headingError_def heading0 M_PI_def M_2_PI_def Let_def)

text \<open>
  C2 (amended): with \<open>d\<close> the actual heading minus the heading of the curve,
  \<open>headingError\<close> returns \<open>d\<close> unchanged when \<open>- pi \<le> d \<le> pi\<close>; when \<open>d > pi\<close> it
  subtracts its correction constant once, when \<open>d < - pi\<close> it adds it once, and it
  never makes a second step.  The constant is positive.
\<close>

theorem headingError_single_step:
  assumes "getHeading L s param = Inr heading"
  shows "headingError L s actZRot param =
           Inr (if actZRot - heading > pi then actZRot - heading - M_2_PI
                else if actZRot - heading < - pi then actZRot - heading + M_2_PI
                else actZRot - heading) \<and>
         0 < M_2_PI"
  using assms by (simp add: headingError_def M_PI_def M_2_PI_def Let_def)

theorem headingError_single_step_witness:
  "headingError (test_sisl 0) test_curve 1 1 = Inr 1 \<and>
   headingError (test_sisl 0) test_curve pi 1 = Inr pi \<and>
   headingError (test_sisl 0) test_curve 13 1 = Inr (13 - M_2_PI) \<and>
   headingError (test_sisl 0) test_curve (- 13) 1 = Inr (- 13 + M_2_PI)"
proof -
  have one: "\<not> pi < 1" "\<not> 1 < - pi"
    using pi_ge_two by linarith+
  show ?thesis
    using headingError_single_step [OF heading0, of 1]
          headingError_single_step [OF heading0, of pi]
          headingError_single_step [OF heading0, of 13]
          headingError_single_step [OF heading0, of "- 13"]
          one pi_margins pi_gt_zero
    by simp
qed

text \<open>
  The correction constant is \<open>M_2_PI\<close>, which is \<open>2 / pi\<close>, where a full turn is
  \<open>2 * pi\<close>: for the actual heading 5 the result \<open>5 - 2 / pi\<close> is still above \<open>pi\<close>,
  while \<open>5 - 2 * pi\<close> lies in the range.
\<close>

lemma headingError_short_turn:
  "headingError (test_sisl 0) test_curve 5 1 = Inr (5 - 2 / pi) \<and>
   pi < 5 - 2 / pi \<and> - pi < 5 - 2 * pi \<and> 5 - 2 * pi \<le> pi"
  using pi_margins pi_less_4
  by (simp add: headingError_def heading0 M_PI_def M_2_PI_def Let_def)

subsection \<open>Distance error\<close>

lemma atan2_diagonals:
  "atan2 1 (- 1) = 3 * pi / 4" "atan2 (- 1) (- 1) = - (3 * pi / 4)" "atan2 1 1 = pi / 4"
  using arctan_minus [of 1] by (simp_all add: atan2_def arctan_one)

lemma distanceError_westward:
  "getPoint westward_sisl test_curve 1 = Inr (Vector3d (- 1) 0 0) \<and>
   getHeading westward_sisl test_curve 1 = Inr pi \<and>
   tangent_reflection westward_sisl test_curve 1 (Vector3d (- 1) (- 1) 0) = Vector3d (- 1) 1 0 \<and>
   distanceError westward_sisl test_curve (Vector3d (- 1) (- 1) 0) 1 = Inr (- 1) \<and>
   distanceError westward_sisl test_curve (Vector3d (- 1) 1 0) 1 = Inr (- 1)"
proof -
  have gp: "getPoint westward_sisl test_curve 1 = Inr (Vector3d (- 1) 0 0)"
    by (simp add: getPoint_def westward_sisl_def test_sisl_def test_curve_def axis_def)
  have gf: "getFrenetFrame westward_sisl test_curve 1 =
              Inr (Matrix3d (Vector3d (- 1) 0 0) (Vector3d 0 (- 1) 0) (Vector3d 0 0 1))"
    by (simp add: getFrenetFrame_def westward_sisl_def test_sisl_def axis_def)
  have gh: "getHeading westward_sisl test_curve 1 = Inr pi"
    by (simp add: getHeading_def gf normalize2_def norm2_def atan2_def Let_def)
  have refl: "tangent_reflection westward_sisl test_curve 1 (Vector3d (- 1) (- 1) 0) = Vector3d (- 1) 1 0"
    by (simp add: tangent_reflection_def gp gf reflect_across_def normalize2_def norm2_def Let_def)
  have below: "\<not> pi \<le> - (pi / 2)" and above: "\<not> pi \<le> pi / 2"
    using pi_gt_zero by linarith+
  have d1: "distanceError westward_sisl test_curve (Vector3d (- 1) (- 1) 0) 1 = Inr (- 1)"
    using below
    by (simp add: distanceError_def gp gh minus3_def normalize2_def norm2_def norm3_def atan2_def Let_def)
  have d2: "distanceError westward_sisl test_curve (Vector3d (- 1) 1 0) 1 = Inr (- 1)"
    using above
    by (simp add: distanceError_def gp gh minus3_def normalize2_def norm2_def norm3_def atan2_def Let_def)
  show ?thesis using gp gh refl d1 d2 by simp
qed

text \<open>
  C5: the sign of \<open>distanceError\<close> tells the side of the curve, and flips when the point
  is reflected across the tangent line.  The code does not do that where the
  difference of the two angles leaves \<open>(-pi, pi]\<close>, which it never wraps.  On the curve
  running north-west the curve point at the parameter 1 is \<open>(-1, 1, 0)\<close> and the heading
  is \<open>3 * pi / 4\<close>.  The point \<open>(-2, 0, 0)\<close> lies to the left of the curve and its
  mirror image \<open>(0, 2, 0)\<close> to the right; both are at the distance \<open>sqrt 2\<close>, and both
  get \<open>- sqrt 2\<close>.  On the curve running west, with heading \<open>pi\<close>, the point one unit
  south and its mirror image one unit north both get \<open>-1\<close>.
\<close>

theorem distanceError_no_flip:
  "getPoint northwest_sisl test_curve 1 = Inr (Vector3d (- 1) 1 0) \<and>
   getHeading northwest_sisl test_curve 1 = Inr (3 * pi / 4) \<and>
   tangent_reflection northwest_sisl test_curve 1 (Vector3d (- 2) 0 0) = Vector3d 0 2 0 \<and>
   distanceError northwest_sisl test_curve (Vector3d (- 2) 0 0) 1 = Inr (- sqrt 2) \<and>
   distanceError northwest_sisl test_curve (Vector3d 0 2 0) 1 = Inr (- sqrt 2) \<and>
   tangent_reflection westward_sisl test_curve 1 (Vector3d (- 1) (- 1) 0) = Vector3d (- 1) 1 0 \<and>
   distanceError westward_sisl test_curve (Vector3d (- 1) (- 1) 0) 1 = Inr (- 1) \<and>
   distanceError westward_sisl test_curve (Vector3d (- 1) 1 0) 1 = Inr (- 1)"
proof -
  have gp: "getPoint northwest_sisl test_curve 1 = Inr (Vector3d (- 1) 1 0)"
    by (simp add: getPoint_def northwest_sisl_def test_sisl_def test_curve_def axis_def)
  have t: "fst (s2559 northwest_sisl (curve test_curve) 1 1) = axis (- 1) 1 0"
    by (simp add: northwest_sisl_def test_sisl_def)
  have gh: "getHeading northwest_sisl test_curve 1 = Inr (3 * pi / 4)"
    by (simp add: getHeading_value t axis_def atan2_diagonals)
  have root: "sqrt 2 * sqrt 2 = 2"
    by simp
  have refl: "tangent_reflection northwest_sisl test_curve 1 (Vector3d (- 2) 0 0) = Vector3d 0 2 0"
    by (simp add: tangent_reflection_value [OF gp] t axis_def reflect_across_def
          normalize2_def norm2_def Let_def)
  have neg: "\<not> 0 \<le> - (3 * pi / 4) - 3 * pi / 4" "\<not> 0 \<le> pi / 4 - 3 * pi / 4"
    using pi_gt_zero by linarith+
  have d1: "distanceError northwest_sisl test_curve (Vector3d (- 2) 0 0) 1 = Inr (- sqrt 2)"
    using neg by (simp add: distanceError_value [OF gp] t axis_def atan2_diagonals)
  have d2: "distanceError northwest_sisl test_curve (Vector3d 0 2 0) 1 = Inr (- sqrt 2)"
    using neg by (simp add: distanceError_value [OF gp] t axis_def atan2_diagonals)
  show ?thesis
    using gp gh refl d1 d2 distanceError_westward by simp
qed

text \<open>
  What does hold.  The magnitude is the planar distance, and the sign is that of the
  unwrapped difference of the two angles.  Where the mirrored angle \<open>2 * h - angle\<close>
  lies in \<open>(-pi, pi]\<close>, so that no wrapping is called for, the sign does flip under
  reflection: the failure above is the missing wrap and nothing else.
\<close>

lemma distanceError_sides:
  fixes L :: "'c sisl" and s :: "'c NURBSCurve3D"
  assumes gp: "getPoint L s param = Inr c"
    and gf: "getFrenetFrame L s param = Inr frame"
    and gh: "getHeading L s param = Inr h"
  shows "\<exists>d. distanceError L s pt param = Inr d \<and>
           \<bar>d\<bar> = planar_distance pt c \<and>
           d = (if planar_angle c pt - h \<ge> 0 then planar_distance pt c
                else - planar_distance pt c) \<and>
           (planar_distance pt c \<noteq> 0 \<and>
            (x3 (row0 frame) \<noteq> 0 \<or> y3 (row0 frame) \<noteq> 0) \<and>
            planar_angle c pt \<noteq> h \<and>
            - pi < 2 * h - planar_angle c pt \<and> 2 * h - planar_angle c pt \<le> pi \<longrightarrow>
              distanceError L s (tangent_reflection L s param pt) param = Inr (- d))"
proof -
  define t where "t = fst (s2559 L (curve s) param 1)"
  have h: "h = atan2 (t 1) (t 0)"
    using gh by (simp add: getHeading_value t_def)
  have fr: "x3 (row0 frame) = t 0" "y3 (row0 frame) = t 1"
    using gf by (auto simp: getFrenetFrame_def case_prod_beta t_def)
  have d: "distanceError L s pt param =
             Inr (if planar_angle c pt - h \<ge> 0 then planar_distance pt c
                  else - planar_distance pt c)"
    unfolding distanceError_value [OF gp] h
    by (simp add: planar_angle_def planar_distance_def t_def)
  have flip: "distanceError L s (tangent_reflection L s param pt) param =
                Inr (- (if planar_angle c pt - h \<ge> 0 then planar_distance pt c
                        else - planar_distance pt c))"
    if nz: "planar_distance pt c \<noteq> 0"
      and tz: "x3 (row0 frame) \<noteq> 0 \<or> y3 (row0 frame) \<noteq> 0"
      and ne: "planar_angle c pt \<noteq> h"
      and lo: "- pi < 2 * h - planar_angle c pt" and hi: "2 * h - planar_angle c pt \<le> pi"
  proof -
    have e: "x3 pt - x3 c \<noteq> 0 \<or> y3 pt - y3 c \<noteq> 0"
      using nz by (auto simp: planar_distance_def)
    have t': "fst (s2559 L (curve s) param 1) 0 \<noteq> 0 \<or> fst (s2559 L (curve s) param 1) 1 \<noteq> 0"
      using tz by (simp add: fr t_def)
    have "distanceError L s (tangent_reflection L s param pt) param =
            Inr (if h - planar_angle c pt \<ge> 0 then planar_distance pt c
                 else - planar_distance pt c)"
      using distanceError_mirrored [OF gp e t'] lo hi
      by (simp add: h t_def planar_angle_def planar_distance_def)
    then show ?thesis using ne by auto
  qed
  have "\<bar>if planar_angle c pt - h \<ge> 0 then planar_distance pt c else - planar_distance pt c\<bar>
          = planar_distance pt c"
    by (simp add: planar_distance_def)
  with d flip show ?thesis by blast
qed

lemma distanceError_sides_instance:
  "distanceError (test_sisl 0) test_curve (Vector3d 1 1 0) 1 = Inr 1 \<and>
   tangent_reflection (test_sisl 0) test_curve 1 (Vector3d 1 1 0) = Vector3d 1 (- 1) 0 \<and>
   distanceError (test_sisl 0) test_curve (Vector3d 1 (- 1) 0) 1 = Inr (- 1)"
proof -
  have gp: "getPoint (test_sisl 0) test_curve 1 = Inr (Vector3d 1 0 0)"
    by (simp add: getPoint_def test_sisl_def test_curve_def axis_def)
  have gf: "getFrenetFrame (test_sisl 0) test_curve 1 =
              Inr (Matrix3d (Vector3d 1 0 0) (Vector3d 0 1 0) (Vector3d 0 0 1))"
    by (simp add: getFrenetFrame_def test_sisl_def axis_def)
  have gh: "getHeading (test_sisl 0) test_curve 1 = Inr 0"
    by (simp add: getHeading_value test_sisl_def axis_def atan2_def)
  have ang: "planar_angle (Vector3d 1 0 0) (Vector3d 1 1 0) = pi / 2"
    by (simp add: planar_angle_def atan2_def)
  have dist: "planar_distance (Vector3d 1 1 0) (Vector3d 1 0 0) = 1"
    by (simp add: planar_distance_def)
  have refl: "tangent_reflection (test_sisl 0) test_curve 1 (Vector3d 1 1 0) = Vector3d 1 (- 1) 0"
    by (simp add: tangent_reflection_def gp gf reflect_across_def normalize2_def norm2_def Let_def)
  have le: "- (pi / 2) \<le> pi"
    using pi_gt_zero by linarith
  from distanceError_sides [OF gp gf gh, of "Vector3d 1 1 0"] ang dist refl le
  show ?thesis by simp
qed

end
